theory Spec2Isabelle
  imports Complex_Main
begin

section \<open>Python values used by tools.py\<close>

text \<open>
  The exceptions that the modelled code paths of \<^verbatim>\<open>tools.py\<close> can raise. A function
  that can raise returns \<open>error + 'a\<close>, with \<open>Inl\<close> for the raised exception.
\<close>

datatype error =
    NotImplementedError
  | ValueError
  | IndexError
  | ZeroDivisionError
  | NameError
  | TypeError
  | FileNotFoundError
  | RuntimeError
  | OverflowError
  | KeyboardInterrupt

text \<open>
  Python's \<^verbatim>\<open>xs[:k]\<close> and \<^verbatim>\<open>xs[a:b]\<close> on a sequence: a negative bound counts from
  the end, every bound is clamped to the sequence, and a slice never raises.
\<close>

definition py_prefix :: "'a list \<Rightarrow> int \<Rightarrow> 'a list" where
  "py_prefix xs k =
     (if k < 0 then take (nat (int (length xs) + k)) xs else take (nat k) xs)"

definition py_bound :: "nat \<Rightarrow> int \<Rightarrow> nat" where
  "py_bound n k = (if k < 0 then nat (int n + k) else min (nat k) n)"

definition py_slice :: "'a list \<Rightarrow> int \<Rightarrow> int \<Rightarrow> 'a list" where
  "py_slice xs a b =
     (let lo = py_bound (length xs) a; hi = py_bound (length xs) b
      in take (hi - lo) (drop lo xs))"

text \<open>Python's \<^verbatim>\<open>xs[i]\<close> on a list: a negative index counts from the end, an index out
  of range raises IndexError.\<close>

definition py_index :: "'a list \<Rightarrow> int \<Rightarrow> error + 'a" where
  "py_index xs i =
     (if 0 \<le> i \<and> i < int (length xs) then Inr (xs ! nat i)
      else if i < 0 \<and> - int (length xs) \<le> i then Inr (xs ! nat (int (length xs) + i))
      else Inl IndexError)"

text \<open>\<^verbatim>\<open>int(n / k)\<close>: true division, then truncation towards zero. The quotient
  is taken exactly; step counts stay far below \<open>2^53\<close>, where the float quotient is exact
  up to the truncation. The callers divide by a constant or after \<^verbatim>\<open>%\<close> by the same
  divisor has succeeded, so \<open>k\<close> is not 0.\<close>

definition int_quot :: "int \<Rightarrow> int \<Rightarrow> int" where
  "int_quot n k = sgn n * sgn k * (\<bar>n\<bar> div \<bar>k\<bar>)"

text \<open>\<^verbatim>\<open>a % b\<close> on ints: ZeroDivisionError for \<open>b = 0\<close>, else the remainder with the
  sign of \<open>b\<close>, which is HOL's \<open>mod\<close>.\<close>

definition py_mod :: "int \<Rightarrow> int \<Rightarrow> error + int" where
  "py_mod a b = (if b = 0 then Inl ZeroDivisionError else Inr (a mod b))"

section \<open>Teacher-forcing schedule\<close>

text \<open>
  \<^verbatim>\<open>numpy.linspace(start, stop, num)\<close> with the end point included, as numpy computes
  it: \<^verbatim>\<open>arange(num) * step + start\<close> with \<^verbatim>\<open>step = (stop - start) / (num - 1)\<close>, the last
  entry overwritten by \<^verbatim>\<open>stop\<close> when \<^verbatim>\<open>num > 1\<close>, the single entry \<^verbatim>\<open>start\<close> when
  \<^verbatim>\<open>num = 1\<close>, and ValueError for a negative \<^verbatim>\<open>num\<close>. Ratios are exact rationals here;
  numpy's are the nearest doubles.
\<close>

definition linspace :: "rat \<Rightarrow> rat \<Rightarrow> int \<Rightarrow> error + rat list" where
  "linspace start stop num =
     (if num < 0 then Inl ValueError
      else let n = nat num; dv = n - 1; delta = stop - start;
               y = (if 0 < dv
                    then map (\<lambda>k. of_nat k * (delta / of_nat dv) + start) [0..<n]
                    else map (\<lambda>k. of_nat k * delta + start) [0..<n])
           in Inr (if 1 < n then y[n - 1 := stop] else y))"

text \<open>\<^verbatim>\<open>cal_teacher_forcing_ratio(learning_method, total_step)\<close>, lines 17-31.
  \<^verbatim>\<open>[::-1]\<close> is \<open>rev\<close>; \<^verbatim>\<open>range(k)\<close> is empty for \<open>k \<le> 0\<close>.\<close>

definition cal_teacher_forcing_ratio :: "string \<Rightarrow> int \<Rightarrow> error + rat list" where
  "cal_teacher_forcing_ratio learning_method total_step =
     (if learning_method = ''Teacher_Forcing''
      then Inr (replicate (nat total_step) 1)
      else if learning_method = ''Scheduled_Sampling''
      then (case linspace 0 1 total_step of
              Inl e \<Rightarrow> Inl e
            | Inr a \<Rightarrow> Inr (rev a))
      else if learning_method = ''Mixed_Sampling''
      then (let teacher_forcing_ratios = replicate (nat (int_quot total_step 2)) 1
            in case linspace 0 1 (int_quot total_step 2) of
                 Inl e \<Rightarrow> Inl e
               | Inr a \<Rightarrow> Inr (teacher_forcing_ratios @ rev a))
      else Inl NotImplementedError)"

section \<open>Translation: preparing the model's inputs\<close>

text \<open>
  The vocabulary is a SentencePiece processor, an external collaborator: the model takes
  the three operations the code calls on it. \<open>PieceToId v p\<close> is \<^verbatim>\<open>v[p]\<close>.
\<close>

record voc =
  EncodeAsIds :: "string \<Rightarrow> nat list"
  IdToPiece :: "nat \<Rightarrow> string"
  PieceToId :: "string \<Rightarrow> nat"

text \<open>
  The fields of a \<^verbatim>\<open>Translation\<close> object. \<open>model\<close> is the loaded network,
  \<^verbatim>\<open>self.model(src, tar, teacher_forcing_rate=r)\<close>, with the attention variant's tuple
  already reduced to its first component; \<open>max_index\<close> is torch's
  \<^verbatim>\<open>output.view(-1, output.size(-1)).max(-1)[1]\<close>, the flattened predicted ids.
\<close>

record 'out translation =
  seq_len :: int
  batch_size :: int
  x_path :: "string option"
  y_path :: "string option"
  ko_voc :: voc
  en_voc :: voc
  model :: "nat list list \<Rightarrow> nat list list \<Rightarrow> rat \<Rightarrow> 'out"
  max_index :: "'out \<Rightarrow> nat list"

text \<open>\<^verbatim>\<open>Translation.padding\<close>, lines 304-310.\<close>

definition padding :: "'out translation \<Rightarrow> nat list \<Rightarrow> nat \<Rightarrow> nat list" where
  "padding self idx_list padding_id =
     (if int (length idx_list) < seq_len self
      then idx_list @ replicate (nat (seq_len self - int (length idx_list))) padding_id
      else py_prefix idx_list (seq_len self))"

text \<open>\<^verbatim>\<open>Translation.src_input\<close> and \<^verbatim>\<open>Translation.tar_input\<close>, lines 294-302. The
  tensor \<^verbatim>\<open>torch.tensor([idx_list])\<close> of shape [1, L] is the one-row list.\<close>

definition src_input :: "'out translation \<Rightarrow> string \<Rightarrow> nat list list" where
  "src_input self sentence =
     (let idx_list = EncodeAsIds (ko_voc self) sentence;
          idx_list = padding self idx_list (PieceToId (ko_voc self) ''<pad>'')
      in [idx_list])"

definition tar_input :: "'out translation \<Rightarrow> nat list list" where
  "tar_input self =
     (let idx_list = [PieceToId (en_voc self) ''<s>''];
          idx_list = padding self idx_list (PieceToId (ko_voc self) ''<pad>'')
      in [idx_list])"

text \<open>
  \<^verbatim>\<open>Translation.tensor2sentence\<close>, lines 312-320: the pieces up to the first
  \<^verbatim>\<open></s>\<close>, joined, SentencePiece's word marker U+2581 (the UTF-8 bytes E2 96 81)
  replaced by a space, and the result stripped. Strings are UTF-8 byte sequences, so
  \<^verbatim>\<open>str.strip()\<close> removes from both ends the code points that Python counts as white
  space: the ASCII ones 09-0D, 1C-1F and 20 (\<open>is_space\<close>), U+0085 and U+00A0 (two
  bytes, \<open>space2\<close>), and U+1680, U+2000-U+200A, U+2028, U+2029, U+202F, U+205F and
  U+3000 (three bytes, \<open>space3\<close>). \<open>rstrip_rev\<close> works on the reversed string, where the
  bytes of a code point come last byte first.
\<close>

fun pieces_until_end :: "voc \<Rightarrow> nat list \<Rightarrow> string list" where
  "pieces_until_end v [] = []"
| "pieces_until_end v (idx # indices) =
     (let word = IdToPiece v idx
      in if word = ''</s>'' then [] else word # pieces_until_end v indices)"

fun replace_marker :: "string \<Rightarrow> string" where
  "replace_marker (a # b # c # cs) =
     (if a = CHR 0xE2 \<and> b = CHR 0x96 \<and> c = CHR 0x81
      then CHR '' '' # replace_marker cs
      else a # replace_marker (b # c # cs))"
| "replace_marker cs = cs"

definition is_space :: "char \<Rightarrow> bool" where
  "is_space c =
     (let k = (of_char c :: nat) in (9 \<le> k \<and> k \<le> 13) \<or> (28 \<le> k \<and> k \<le> 32))"

definition space2 :: "char \<Rightarrow> char \<Rightarrow> bool" where
  "space2 a b = (a = CHR 0xC2 \<and> (b = CHR 0x85 \<or> b = CHR 0xA0))"

definition space3 :: "char \<Rightarrow> char \<Rightarrow> char \<Rightarrow> bool" where
  "space3 a b c =
     ((a = CHR 0xE1 \<and> b = CHR 0x9A \<and> c = CHR 0x80) \<or>
      (a = CHR 0xE2 \<and> b = CHR 0x80 \<and>
         ((128 \<le> (of_char c :: nat) \<and> (of_char c :: nat) \<le> 138) \<or>
          c = CHR 0xA8 \<or> c = CHR 0xA9 \<or> c = CHR 0xAF)) \<or>
      (a = CHR 0xE2 \<and> b = CHR 0x81 \<and> c = CHR 0x9F) \<or>
      (a = CHR 0xE3 \<and> b = CHR 0x80 \<and> c = CHR 0x80))"

fun lstrip :: "string \<Rightarrow> string" where
  "lstrip (a # b # c # cs) =
     (if is_space a then lstrip (b # c # cs)
      else if space2 a b then lstrip (c # cs)
      else if space3 a b c then lstrip cs
      else a # b # c # cs)"
| "lstrip [a, b] =
     (if is_space a then lstrip [b] else if space2 a b then [] else [a, b])"
| "lstrip [a] = (if is_space a then [] else [a])"
| "lstrip [] = []"

fun rstrip_rev :: "string \<Rightarrow> string" where
  "rstrip_rev (c # b # a # cs) =
     (if is_space c then rstrip_rev (b # a # cs)
      else if space2 b c then rstrip_rev (a # cs)
      else if space3 a b c then rstrip_rev cs
      else c # b # a # cs)"
| "rstrip_rev [c, b] =
     (if is_space c then rstrip_rev [b] else if space2 b c then [] else [c, b])"
| "rstrip_rev [c] = (if is_space c then [] else [c])"
| "rstrip_rev [] = []"

definition strip :: "string \<Rightarrow> string" where
  "strip s = rev (rstrip_rev (rev (lstrip s)))"

definition tensor2sentence :: "'out translation \<Rightarrow> nat list \<Rightarrow> string" where
  "tensor2sentence self indices =
     (let translation_sentence = pieces_until_end (en_voc self) indices
      in strip (replace_marker (concat translation_sentence)))"

text \<open>
  The files of \<^verbatim>\<open>get_test_loader\<close> (lines 322-332) are read from a file system, a map
  from paths to the lines of the file: \<^verbatim>\<open>open(None)\<close> raises TypeError, a missing file
  FileNotFoundError. Both lists are cut to their first \<open>batch_size\<close> lines.
\<close>

definition open_lines :: "(string \<rightharpoonup> string list) \<Rightarrow> string option \<Rightarrow> error + string list" where
  "open_lines fs path =
     (case path of
        None \<Rightarrow> Inl TypeError
      | Some p \<Rightarrow> (case fs p of None \<Rightarrow> Inl FileNotFoundError | Some ls \<Rightarrow> Inr ls))"

definition get_test_loader ::
  "(string \<rightharpoonup> string list) \<Rightarrow> 'out translation \<Rightarrow> error + (string list \<times> string list)" where
  "get_test_loader fs self =
     (case open_lines fs (x_path self) of
        Inl e \<Rightarrow> Inl e
      | Inr src_list \<Rightarrow>
          (case open_lines fs (y_path self) of
             Inl e \<Rightarrow> Inl e
           | Inr tar_list \<Rightarrow>
               Inr (py_prefix src_list (batch_size self), py_prefix tar_list (batch_size self))))"

text \<open>
  \<^verbatim>\<open>torch.stack(ts).squeeze(dim=1)\<close> on tensors of shape [1, L]: the rows, one under
  the other. torch raises RuntimeError for an empty list and for rows of different shapes.
\<close>

definition stack_rows :: "nat list list list \<Rightarrow> error + nat list list" where
  "stack_rows ts =
     (case ts of
        [] \<Rightarrow> Inl RuntimeError
      | t # _ \<Rightarrow>
          if list_all (\<lambda>u. map length u = map length t) ts then Inr (concat ts)
          else Inl RuntimeError)"

text \<open>\<^verbatim>\<open>range(start, stop, step)\<close>: ValueError for a zero step, else the arithmetic
  progression from \<open>start\<close> that stays before \<open>stop\<close>.\<close>

definition py_range :: "int \<Rightarrow> int \<Rightarrow> int \<Rightarrow> error + int list" where
  "py_range start stop step =
     (if step = 0 then Inl ValueError
      else if 0 < step
      then Inr (map (\<lambda>k. start + int k * step) [0..<nat ((stop - start + step - 1) div step)])
      else Inr (map (\<lambda>k. start + int k * step) [0..<nat ((start - stop - step - 1) div (- step))]))"

text \<open>The loop of \<^verbatim>\<open>batch_transform\<close>, lines 360-365: one decoded sentence for each
  start \<open>i\<close> of \<^verbatim>\<open>range(0, len(indices), self.seq_len)\<close>, from \<^verbatim>\<open>indices[i:end]\<close> with
  \<^verbatim>\<open>end = i + self.seq_len - 1\<close>.\<close>

definition decode_rows :: "'out translation \<Rightarrow> nat list \<Rightarrow> error + string list" where
  "decode_rows self indices =
     (case py_range 0 (int (length indices)) (seq_len self) of
        Inl e \<Rightarrow> Inl e
      | Inr starts \<Rightarrow>
          Inr (map (\<lambda>i. let end = i + seq_len self - 1;
                             indices_i = py_slice indices i end
                         in tensor2sentence self indices_i) starts))"

text \<open>
  What a run of \<^verbatim>\<open>transform\<close> or \<^verbatim>\<open>batch_transform\<close> leaves behind: the invocations
  of the model, each with its source rows, target rows and teacher-forcing rate, and the
  texts printed, one entry for each \<^verbatim>\<open>print\<close>.
\<close>

record run_trace =
  model_calls :: "(nat list list \<times> nat list list \<times> rat) list"
  printed :: "string list"

definition newline :: string where
  "newline = [CHR 0x0A]"

text \<open>\<^verbatim>\<open>Translation.transform\<close>, lines 334-345.\<close>

definition transform :: "'out translation \<Rightarrow> string \<Rightarrow> run_trace" where
  "transform self sentence =
     (let src = src_input self sentence;
          tar = tar_input self;
          output = model self src tar 0;
          indices = max_index self output;
          pred = tensor2sentence self indices
      in \<lparr>model_calls = [(src, tar, 0)],
          printed = [''Korean: '' @ sentence @ newline, ''Predict: '' @ pred @ newline]\<rparr>)"

text \<open>\<^verbatim>\<open>Translation.batch_transform\<close>, lines 347-371.\<close>

definition print_triple :: "string \<times> string \<times> string \<Rightarrow> string list" where
  "print_triple t =
     (case t of (src, tar, pred) \<Rightarrow>
        [''Korean: '' @ src, ''English: '' @ tar, ''Predict: '' @ pred @ newline,
         ''-------------------------'' @ newline])"

definition batch_transform ::
  "(string \<rightharpoonup> string list) \<Rightarrow> 'out translation \<Rightarrow> error + run_trace" where
  "batch_transform fs self =
     (case get_test_loader fs self of
        Inl e \<Rightarrow> Inl e
      | Inr (src_list, tar_list) \<Rightarrow>
          if batch_size self < int (length src_list) then Inl ValueError
          else
            (case stack_rows (map (src_input self) src_list) of
               Inl e \<Rightarrow> Inl e
             | Inr src_inputs \<Rightarrow>
                 (case stack_rows (map (\<lambda>_. tar_input self) src_list) of
                    Inl e \<Rightarrow> Inl e
                  | Inr tar_inputs \<Rightarrow>
                      (let output = model self src_inputs tar_inputs 0;
                           indices = max_index self output
                       in case decode_rows self indices of
                            Inl e \<Rightarrow> Inl e
                          | Inr result \<Rightarrow>
                              Inr \<lparr>model_calls = [(src_inputs, tar_inputs, 0)],
                                   printed = concat (map print_triple
                                     (zip src_list (zip tar_list result)))\<rparr>))))"

text \<open>\<^verbatim>\<open>Translation.__init__\<close>, lines 274-283, from the loaded checkpoint's
  \<^verbatim>\<open>seq_len\<close>, the vocabularies and the rebuilt model: the batch bound is the constant 100.\<close>

definition Translation ::
  "int \<Rightarrow> voc \<Rightarrow> voc \<Rightarrow> (nat list list \<Rightarrow> nat list list \<Rightarrow> rat \<Rightarrow> 'out) \<Rightarrow> ('out \<Rightarrow> nat list)
     \<Rightarrow> string option \<Rightarrow> string option \<Rightarrow> 'out translation" where
  "Translation checkpoint_seq_len ko en net pick x y =
     \<lparr>seq_len = checkpoint_seq_len, batch_size = 100, x_path = x, y_path = y,
      ko_voc = ko, en_voc = en, model = net, max_index = pick\<rparr>"

section \<open>Trainer: metrics\<close>

text \<open>
  Floating-point values: a finite value (an exact rational here, the nearest float in the
  program), the two infinities, and NaN. Addition and division by a positive count follow
  IEEE 754 on the special values.
\<close>

datatype fl = Fin rat | PosInf | NegInf | NaN

fun fl_add :: "fl \<Rightarrow> fl \<Rightarrow> fl" where
  "fl_add NaN y = NaN"
| "fl_add x NaN = NaN"
| "fl_add PosInf NegInf = NaN"
| "fl_add NegInf PosInf = NaN"
| "fl_add PosInf y = PosInf"
| "fl_add x PosInf = PosInf"
| "fl_add NegInf y = NegInf"
| "fl_add x NegInf = NegInf"
| "fl_add (Fin a) (Fin b) = Fin (a + b)"

definition fl_sum :: "fl list \<Rightarrow> fl" where
  "fl_sum xs = foldr fl_add xs (Fin 0)"

text \<open>Python's \<^verbatim>\<open>total / count\<close> with an int count: ZeroDivisionError for a zero count.\<close>

fun py_truediv :: "fl \<Rightarrow> nat \<Rightarrow> error + fl" where
  "py_truediv x 0 = Inl ZeroDivisionError"
| "py_truediv (Fin a) n = Inr (Fin (a / of_nat n))"
| "py_truediv x n = Inr x"

text \<open>\<^verbatim>\<open>torch.div(c, total)\<close> for a float tensor holding the count \<open>c\<close> and the Python int
  \<open>total\<close>: torch does not raise on a zero divisor, it returns NaN for 0/0 and infinity
  for a positive count over 0.\<close>

definition torch_div :: "nat \<Rightarrow> nat \<Rightarrow> fl" where
  "torch_div c d =
     (if d = 0 then (if c = 0 then NaN else PosInf)
      else Fin (of_nat c / of_nat d))"

text \<open>The division of a float tensor by a count inside torch (the mean of a reduction):
  no exception for a zero count, but NaN for 0/0 and an infinity for another value over 0.\<close>

definition torch_mean_div :: "fl \<Rightarrow> nat \<Rightarrow> fl" where
  "torch_mean_div x n =
     (case x of
        Fin a \<Rightarrow>
          if n = 0 then (if a = 0 then NaN else if 0 < a then PosInf else NegInf)
          else Fin (a / of_nat n)
      | PosInf \<Rightarrow> PosInf
      | NegInf \<Rightarrow> NegInf
      | NaN \<Rightarrow> NaN)"

type_synonym batch = "nat list list \<times> nat list list \<times> nat list list"

text \<open>
  The fields of a \<^verbatim>\<open>Trainer\<close> that the modelled methods read, with the command-line
  arguments among them, and the external collaborators as functions:
  \<^item> \<open>forward p src tar r\<close> is \<^verbatim>\<open>model(src, tar, teacher_forcing_rate=r)\<close> under the
    parameters \<open>p\<close> (an attention variant's tuple reduced to its first component);
  \<^item> \<open>token_loss out k t\<close> is the cross entropy of position \<open>k\<close> of the flattened
    logits against the target id \<open>t\<close> (the negative log-softmax at \<open>t\<close>), the summand of
    \<^verbatim>\<open>nn.CrossEntropyLoss\<close>; the targets are ids of the vocabulary, inside the logits'
    range;
  \<^item> \<open>argmax out\<close> is \<^verbatim>\<open>out.view(-1, out.size(-1)).max(-1)[1]\<close>;
  \<^item> \<open>exp_finite\<close> is \<^verbatim>\<open>math.exp\<close> on a finite argument, \<open>None\<close> when it raises
    OverflowError;
  \<^item> \<open>optimizer_step p out tar\<close> is the parameters after \<^verbatim>\<open>zero_grad\<close>,
    \<^verbatim>\<open>loss.backward()\<close> and \<^verbatim>\<open>optimizer.step()\<close>;
  \<^item> \<open>n_gram_precision\<close> is the function of that name of the module \<^verbatim>\<open>bleu\<close>;
  \<^item> \<open>train_loader e i\<close> is batch \<open>i\<close> of epoch \<open>e\<close>, of \<open>train_loader_len\<close> batches an
    epoch (the sampler shuffles anew in every epoch), and \<open>val_loader s\<close> the batches of
    the validation pass made at global step \<open>s\<close>.
\<close>

record ('p, 'out) trainer =
  epochs :: int
  learning_method :: string
  train_step_print :: int
  val_step_print :: int
  step_save :: int
  sequence_size :: int
  trainer_en_voc :: voc
  forward :: "'p \<Rightarrow> nat list list \<Rightarrow> nat list list \<Rightarrow> rat \<Rightarrow> 'out"
  token_loss :: "'out \<Rightarrow> nat \<Rightarrow> nat \<Rightarrow> fl"
  argmax :: "'out \<Rightarrow> nat list"
  exp_finite :: "rat \<Rightarrow> rat option"
  optimizer_step :: "'p \<Rightarrow> 'out \<Rightarrow> nat list list \<Rightarrow> 'p"
  n_gram_precision :: "string \<Rightarrow> string \<Rightarrow> fl"
  train_loader_len :: nat
  train_loader :: "int \<Rightarrow> nat \<Rightarrow> batch"
  val_loader :: "int \<Rightarrow> batch list"

text \<open>
  \<^verbatim>\<open>self.criterion\<close>, line 44: \<^verbatim>\<open>nn.CrossEntropyLoss(ignore_index=self.en_voc['<pad>'])\<close>
  with its default mean reduction, on the flattened logits and targets. The positions whose
  target is the pad id are left out; the loss is the sum of the cross entropies of the
  other positions over their number, which torch computes without raising when there is
  none: the loss of a batch of padding only is 0/0, NaN.
\<close>

definition criterion :: "('p, 'out) trainer \<Rightarrow> 'out \<Rightarrow> nat list \<Rightarrow> fl" where
  "criterion self out tar =
     (let kept = filter (\<lambda>(k, t). t \<noteq> PieceToId (trainer_en_voc self) ''<pad>'')
                   (zip [0..<length tar] tar)
      in torch_mean_div (fl_sum (map (\<lambda>(k, t). token_loss self out k t) kept)) (length kept))"

text \<open>\<^verbatim>\<open>math.exp\<close> on a float: NaN for NaN, infinity for infinity, 0.0 for minus
  infinity, and on a finite argument its value or OverflowError.\<close>

definition math_exp :: "('p, 'out) trainer \<Rightarrow> fl \<Rightarrow> error + fl" where
  "math_exp self x =
     (case x of
        Fin a \<Rightarrow> (case exp_finite self a of None \<Rightarrow> Inl OverflowError | Some y \<Rightarrow> Inr (Fin y))
      | PosInf \<Rightarrow> Inr PosInf
      | NegInf \<Rightarrow> Inr (Fin 0)
      | NaN \<Rightarrow> Inr NaN)"

text \<open>
  The accuracy of \<^verbatim>\<open>Trainer.loss_accuracy\<close>, lines 191-199, from the predicted ids and
  the flattened targets: the matches at the positions that are not padding, counted, over
  the number of positions that are not padding (\<^verbatim>\<open>total\<close> in the source).
\<close>

definition accuracy :: "('p, 'out) trainer \<Rightarrow> nat list \<Rightarrow> nat list \<Rightarrow> fl" where
  "accuracy self indices tar =
     (let invalid_targets = map (\<lambda>t. t = PieceToId (trainer_en_voc self) ''<pad>'') tar;
          equal = map (\<lambda>(a, b). a = b) (zip indices tar);
          total_valid = length (filter (\<lambda>i. i = False) invalid_targets);
          masked = map (\<lambda>(e, inv). if inv then False else e) (zip equal invalid_targets)
      in torch_div (length (filter (\<lambda>e. e) masked)) total_valid)"

text \<open>
  \<^verbatim>\<open>Trainer.loss_accuracy\<close>, lines 181-200. The targets [B, T] are flattened; the
  criterion raises ValueError when the logits and the targets differ in their number of
  positions, so the comparison after it sees equal lengths.
\<close>

definition loss_accuracy ::
  "('p, 'out) trainer \<Rightarrow> 'out \<Rightarrow> nat list list \<Rightarrow> error + (fl \<times> fl \<times> fl)" where
  "loss_accuracy self out tar_rows =
     (let tar = concat tar_rows
      in if length (argmax self out) = length tar
         then (let loss = criterion self out tar
               in case math_exp self loss of
                    Inl e \<Rightarrow> Inl e
                  | Inr ppl \<Rightarrow> Inr (loss, accuracy self (argmax self out) tar, ppl))
         else Inl ValueError)"

text \<open>\<^verbatim>\<open>Trainer.tensor2sentence_en\<close>, lines 248-258: the one-element list of the decoded
  sentence.\<close>

definition tensor2sentence_en :: "('p, 'out) trainer \<Rightarrow> nat list \<Rightarrow> string list" where
  "tensor2sentence_en self indices =
     (let translation_sentence = pieces_until_end (trainer_en_voc self) indices
      in [strip (replace_marker (concat translation_sentence))])"

text \<open>
  \<^verbatim>\<open>Trainer.val\<close>, lines 202-233. The running state of the loop is the three totals,
  the count, and the \<^verbatim>\<open>output\<close>, \<^verbatim>\<open>src_input\<close> and \<^verbatim>\<open>tar_output\<close> of the last batch
  (\<open>output\<close>, \<open>src\<close>, \<open>tar_out\<close> here), unbound (\<open>None\<close>) before the first one. The
  lines printed are left out.
\<close>

record 'out running =
  total_loss :: fl
  total_accuracy :: fl
  total_ppl :: fl
  count :: nat
  last_batch :: "('out \<times> nat list list \<times> nat list list) option"

fun val_loop ::
  "('p, 'out) trainer \<Rightarrow> 'p \<Rightarrow> rat \<Rightarrow> batch list \<Rightarrow> 'out running \<Rightarrow> error + 'out running" where
  "val_loop self p r [] acc = Inr acc"
| "val_loop self p r (data # rest) acc =
     (case data of (src, tar_in, tar_out) \<Rightarrow>
        (let output = forward self p src tar_in r
         in case loss_accuracy self output tar_out of
              Inl e \<Rightarrow> Inl e
            | Inr (loss, acc1, ppl) \<Rightarrow>
                val_loop self p r rest
                  \<lparr>total_loss = fl_add (total_loss acc) loss,
                   total_accuracy = fl_add (total_accuracy acc) acc1,
                   total_ppl = fl_add (total_ppl acc) ppl,
                   count = count acc + 1,
                   last_batch = Some (output, src, tar_out)\<rparr>))"

definition val ::
  "('p, 'out) trainer \<Rightarrow> 'p \<Rightarrow> rat \<Rightarrow> batch list \<Rightarrow> error + (fl \<times> fl \<times> fl \<times> fl)" where
  "val self p teacher_forcing_rate loader =
     (case val_loop self p teacher_forcing_rate loader
             \<lparr>total_loss = Fin 0, total_accuracy = Fin 0, total_ppl = Fin 0, count = 0,
              last_batch = None\<rparr> of
        Inl e \<Rightarrow> Inl e
      | Inr acc \<Rightarrow>
          (case last_batch acc of
             None \<Rightarrow> Inl NameError
           | Some (output, src, tar_out) \<Rightarrow>
               (let indices = py_prefix (argmax self output) (sequence_size self)
                in case py_index src 0 of
                     Inl e \<Rightarrow> Inl e
                   | Inr a \<Rightarrow>
                  (case py_index tar_out 0 of
                     Inl e \<Rightarrow> Inl e
                   | Inr b \<Rightarrow>
                  (case py_index (tensor2sentence_en self indices) 0 of
                     Inl e \<Rightarrow> Inl e
                   | Inr output_sentence \<Rightarrow>
                  (case py_index (tensor2sentence_en self b) 0 of
                     Inl e \<Rightarrow> Inl e
                   | Inr target_sentence \<Rightarrow>
                  (let bleu_score = n_gram_precision self output_sentence target_sentence
                   in case py_truediv (total_loss acc) (count acc) of
                        Inl e \<Rightarrow> Inl e
                      | Inr avg_loss \<Rightarrow>
                     (case py_truediv (total_accuracy acc) (count acc) of
                        Inl e \<Rightarrow> Inl e
                      | Inr avg_accuracy \<Rightarrow>
                     (case py_truediv (total_ppl acc) (count acc) of
                        Inl e \<Rightarrow> Inl e
                      | Inr avg_ppl \<Rightarrow>
                          Inr (avg_loss, avg_accuracy, avg_ppl, bleu_score))))))))))"

text \<open>The metrics of one validation batch, as the loop of \<^verbatim>\<open>val\<close> computes them.\<close>

definition score :: "('p, 'out) trainer \<Rightarrow> 'p \<Rightarrow> rat \<Rightarrow> batch \<Rightarrow> error + (fl \<times> fl \<times> fl)" where
  "score self p r data =
     (case data of (src, tar_in, tar_out) \<Rightarrow> loss_accuracy self (forward self p src tar_in r) tar_out)"

text \<open>The arithmetic mean of a list of values, as the spec words it: their sum
  (\<open>fl_sum\<close>) over their number.\<close>

definition fl_mean :: "fl list \<Rightarrow> error + fl" where
  "fl_mean xs = py_truediv (fl_sum xs) (length xs)"

section \<open>Trainer: the training loop\<close>

text \<open>
  The checkpoint written by \<^verbatim>\<open>model_save\<close> (lines 235-246): the keys \<^verbatim>\<open>epoch\<close>,
  \<^verbatim>\<open>steps\<close>, \<^verbatim>\<open>seq_len\<close> and the model's state; the two hyperparameter dictionaries and
  the optimizer's state are left out.
\<close>

record 'p checkpoint =
  epoch :: int
  steps :: int
  saved_seq_len :: int
  model_state_dict :: 'p

text \<open>
  What \<^verbatim>\<open>train\<close> mutates and leaves behind: the global step, the parameters, the
  checkpoints in the order of their saving, the teacher-forcing rate of every forward pass
  of the training loop in order, and the scalars handed to the summary writer
  (tag, value, step). The progress lines printed are left out.
\<close>

record 'p train_state =
  step :: int
  params :: 'p
  checkpoints :: "'p checkpoint list"
  ratios_used :: "rat list"
  scalars :: "(string \<times> fl \<times> int) list"

definition model_save :: "('p, 'out) trainer \<Rightarrow> 'p train_state \<Rightarrow> int \<Rightarrow> int \<Rightarrow> 'p train_state" where
  "model_save self st ep stp =
     st\<lparr>checkpoints := checkpoints st
          @ [\<lparr>epoch = ep, steps = stp, saved_seq_len = sequence_size self,
               model_state_dict = params st\<rparr>]\<rparr>"

text \<open>
  A keyboard interrupt is asynchronous. For each batch the environment says whether one
  arrives while the body of the \<^verbatim>\<open>try\<close> runs, and in which part of it:
  the forward pass with the metrics (lines 73-77), the training log (80-87), the
  validation (90-106), the periodic save (109-111), the optimizer update (114-116), or the
  increment of the step (117). The part interrupted has no effect; a part that this batch
  does not run cannot be interrupted. Interrupts outside the \<^verbatim>\<open>try\<close> (while the loader
  fetches a batch, or inside the handler) are not modelled.
\<close>

datatype phase = Forward | TrainLog | Validation | Save | Optimizer | Increment

text \<open>The body either completes (\<open>Inr\<close>) or raises, with the state as it is then.\<close>

type_synonym 'p raised = "error \<times> 'p train_state"

definition forward_pass ::
  "('p, 'out) trainer \<Rightarrow> rat list \<Rightarrow> nat \<Rightarrow> batch \<Rightarrow> phase option \<Rightarrow> 'p train_state
     \<Rightarrow> 'p raised + ('p train_state \<times> 'out \<times> fl \<times> fl \<times> fl)" where
  "forward_pass self train_ratios i data sig st =
     (if sig = Some Forward then Inl (KeyboardInterrupt, st)
      else case data of (src, tar_in, tar_out) \<Rightarrow>
        (case py_index train_ratios (int i) of
           Inl e \<Rightarrow> Inl (e, st)
         | Inr r \<Rightarrow>
             (let output = forward self (params st) src tar_in r;
                  st1 = st\<lparr>ratios_used := ratios_used st @ [r]\<rparr>
              in case loss_accuracy self output tar_out of
                   Inl e \<Rightarrow> Inl (e, st1)
                 | Inr (loss, acc, ppl) \<Rightarrow> Inr (st1, output, loss, acc, ppl))))"

definition training_log ::
  "('p, 'out) trainer \<Rightarrow> phase option \<Rightarrow> fl \<Rightarrow> fl \<Rightarrow> fl \<Rightarrow> 'p train_state
     \<Rightarrow> 'p raised + 'p train_state" where
  "training_log self sig loss acc ppl st =
     (case py_mod (step st) (train_step_print self) of
        Inl e \<Rightarrow> Inl (e, st)
      | Inr m \<Rightarrow>
          if m = 0
          then (if sig = Some TrainLog then Inl (KeyboardInterrupt, st)
                else Inr (st\<lparr>scalars := scalars st
                            @ [(''train/loss'', loss, step st),
                               (''train/accuracy'', acc, step st),
                               (''train/PPL'', ppl, step st)]\<rparr>))
          else Inr st)"

definition validation_log ::
  "('p, 'out) trainer \<Rightarrow> rat list \<Rightarrow> phase option \<Rightarrow> 'p train_state
     \<Rightarrow> 'p raised + 'p train_state" where
  "validation_log self val_ratios sig st =
     (case py_mod (step st) (val_step_print self) of
        Inl e \<Rightarrow> Inl (e, st)
      | Inr m \<Rightarrow>
          if m = 0
          then (if sig = Some Validation then Inl (KeyboardInterrupt, st)
                else (let k = (if val_step_print self \<le> step st
                               then int_quot (step st) (val_step_print self)
                               else step st)
                      in case py_index val_ratios k of
                           Inl e \<Rightarrow> Inl (e, st)
                         | Inr r \<Rightarrow>
                             (case val self (params st) r (val_loader self (step st)) of
                                Inl e \<Rightarrow> Inl (e, st)
                              | Inr (val_loss, val_accuracy, val_ppl, val_bleu) \<Rightarrow>
                                  Inr (st\<lparr>scalars := scalars st
                                        @ [(''val/loss'', val_loss, step st),
                                           (''val/accuracy'', val_accuracy, step st),
                                           (''val/PPL'', val_ppl, step st),
                                           (''val/BLEU'', val_bleu, step st)]\<rparr>))))
          else Inr st)"

definition periodic_save ::
  "('p, 'out) trainer \<Rightarrow> phase option \<Rightarrow> int \<Rightarrow> 'p train_state \<Rightarrow> 'p raised + 'p train_state" where
  "periodic_save self sig ep st =
     (case py_mod (step st) (step_save self) of
        Inl e \<Rightarrow> Inl (e, st)
      | Inr m \<Rightarrow>
          if m = 0
          then (if sig = Some Save then Inl (KeyboardInterrupt, st)
                else Inr (model_save self st ep (step st)))
          else Inr st)"

definition optimizer_update ::
  "('p, 'out) trainer \<Rightarrow> phase option \<Rightarrow> 'out \<Rightarrow> nat list list \<Rightarrow> 'p train_state
     \<Rightarrow> 'p raised + 'p train_state" where
  "optimizer_update self sig output tar_out st =
     (if sig = Some Optimizer then Inl (KeyboardInterrupt, st)
      else (let st1 = st\<lparr>params := optimizer_step self (params st) output tar_out\<rparr>
            in if sig = Some Increment then Inl (KeyboardInterrupt, st1)
               else Inr (st1\<lparr>step := step st1 + 1\<rparr>)))"

text \<open>The body of the \<^verbatim>\<open>try\<close>, lines 73-117, for batch \<open>i\<close> of epoch \<open>ep\<close>.\<close>

definition train_body ::
  "('p, 'out) trainer \<Rightarrow> rat list \<Rightarrow> rat list \<Rightarrow> int \<Rightarrow> nat \<Rightarrow> phase option \<Rightarrow> 'p train_state
     \<Rightarrow> 'p raised + 'p train_state" where
  "train_body self train_ratios val_ratios ep i sig st =
     (case forward_pass self train_ratios i (train_loader self ep i) sig st of
        Inl x \<Rightarrow> Inl x
      | Inr (st1, output, loss, acc, ppl) \<Rightarrow>
     (case training_log self sig loss acc ppl st1 of
        Inl x \<Rightarrow> Inl x
      | Inr st2 \<Rightarrow>
     (case validation_log self val_ratios sig st2 of
        Inl x \<Rightarrow> Inl x
      | Inr st3 \<Rightarrow>
     (case periodic_save self sig ep st3 of
        Inl x \<Rightarrow> Inl x
      | Inr st4 \<Rightarrow>
          optimizer_update self sig output (snd (snd (train_loader self ep i))) st4))))"

text \<open>
  The inner loop with its handler, lines 71-121: \<^verbatim>\<open>except KeyboardInterrupt\<close> saves a
  checkpoint with the epoch and the step of that moment and ends there, so the \<^verbatim>\<open>for\<close>
  goes on with the next batch; any other exception leaves the loop.
\<close>

fun batches_loop ::
  "('p, 'out) trainer \<Rightarrow> rat list \<Rightarrow> rat list \<Rightarrow> (int \<Rightarrow> nat \<Rightarrow> phase option) \<Rightarrow> int
     \<Rightarrow> nat list \<Rightarrow> 'p train_state \<Rightarrow> 'p raised + 'p train_state" where
  "batches_loop self train_ratios val_ratios signals ep [] st = Inr st"
| "batches_loop self train_ratios val_ratios signals ep (i # rest) st =
     (case train_body self train_ratios val_ratios ep i (signals ep i) st of
        Inr st1 \<Rightarrow> batches_loop self train_ratios val_ratios signals ep rest st1
      | Inl (e, st1) \<Rightarrow>
          if e = KeyboardInterrupt
          then batches_loop self train_ratios val_ratios signals ep rest
                 (model_save self st1 ep (step st1))
          else Inl (e, st1))"

text \<open>The outer loop, line 70.\<close>

fun epochs_loop ::
  "('p, 'out) trainer \<Rightarrow> rat list \<Rightarrow> rat list \<Rightarrow> (int \<Rightarrow> nat \<Rightarrow> phase option)
     \<Rightarrow> int list \<Rightarrow> 'p train_state \<Rightarrow> 'p raised + 'p train_state" where
  "epochs_loop self train_ratios val_ratios signals [] st = Inr st"
| "epochs_loop self train_ratios val_ratios signals (ep # rest) st =
     (case batches_loop self train_ratios val_ratios signals ep
             [0..<train_loader_len self] st of
        Inl x \<Rightarrow> Inl x
      | Inr st1 \<Rightarrow> epochs_loop self train_ratios val_ratios signals rest st1)"

text \<open>
  \<^verbatim>\<open>Trainer.train\<close>, lines 48-121, from the initial parameters \<open>p0\<close>: the two
  schedules, then the loops from step 0.
\<close>

definition train ::
  "('p, 'out) trainer \<Rightarrow> (int \<Rightarrow> nat \<Rightarrow> phase option) \<Rightarrow> 'p \<Rightarrow> 'p raised + 'p train_state" where
  "train self signals p0 =
     (let st0 = \<lparr>step = 0, params = p0, checkpoints = [], ratios_used = [], scalars = []\<rparr>;
          epoch_step = int (train_loader_len self) + 1;
          total_step = epochs self * epoch_step
      in case cal_teacher_forcing_ratio (learning_method self) total_step of
           Inl e \<Rightarrow> Inl (e, st0)
         | Inr train_ratios \<Rightarrow>
        (case cal_teacher_forcing_ratio ''Teacher_Forcing'' (int_quot total_step 100 + 1) of
           Inl e \<Rightarrow> Inl (e, st0)
         | Inr val_ratios \<Rightarrow>
             epochs_loop self train_ratios val_ratios signals
               (map int [0..<nat (epochs self)]) st0))"

section \<open>A toy instance\<close>

text \<open>
  A vocabulary whose pieces are single bytes, with \<^verbatim>\<open><pad>\<close> = 0, \<^verbatim>\<open><s>\<close> = 1 and
  \<^verbatim>\<open></s>\<close> = 2, and a network that answers every target row with the source row: a
  concrete instance on which the definitions can be run.
\<close>

definition toy_voc :: voc where
  "toy_voc =
     \<lparr>EncodeAsIds = map of_char,
      IdToPiece = (\<lambda>i. if i = 0 then ''<pad>'' else if i = 1 then ''<s>''
                        else if i = 2 then ''</s>'' else [char_of i]),
      PieceToId = (\<lambda>p. if p = ''<pad>'' then 0 else if p = ''<s>'' then 1
                        else if p = ''</s>'' then 2 else 3)\<rparr>"

definition toy_translation :: "int \<Rightarrow> nat list translation" where
  "toy_translation n =
     Translation n toy_voc toy_voc (\<lambda>src tar r. concat src) (\<lambda>output. output)
       (Some ''x.txt'') (Some ''y.txt'')"

text \<open>The test files: a pair of two sentences each, and a pair of \<open>k\<close> lines each.\<close>

definition toy_pair_files :: "string \<rightharpoonup> string list" where
  "toy_pair_files =
     [''x.txt'' \<mapsto> [''hi!'' @ newline, ''ok?'' @ newline],
      ''y.txt'' \<mapsto> [''HI'' @ newline, ''OK'' @ newline]]"

definition toy_files :: "nat \<Rightarrow> (string \<rightharpoonup> string list)" where
  "toy_files k =
     [''x.txt'' \<mapsto> replicate k (''a'' @ newline), ''y.txt'' \<mapsto> replicate k (''b'' @ newline)]"

text \<open>
  A trainer on two-id rows: the network repeats its source row, a position predicted
  wrongly costs 2 and one predicted rightly 0, \<open>toy_exp\<close> stands in for \<^verbatim>\<open>math.exp\<close> on
  the finite values (a polynomial, overflow above 709), and an optimizer step counts the
  updates. Every cadence is 100 steps. \<open>interrupt_first\<close> delivers one keyboard
  interrupt, during the forward pass of the first batch of the first epoch;
  \<open>no_interrupt\<close> delivers none.
\<close>

definition toy_exp :: "rat \<Rightarrow> rat option" where
  "toy_exp a = (if 709 < a then None else Some (1 + a + a * a / 2))"

definition toy_batch :: "nat \<Rightarrow> batch" where
  "toy_batch i = ([[104, 105]], [[1, 104]], [[104 + i, 2]])"

definition toy_trainer :: "string \<Rightarrow> int \<Rightarrow> nat \<Rightarrow> (nat, nat list) trainer" where
  "toy_trainer method n_epochs n_batches =
     \<lparr>epochs = n_epochs, learning_method = method,
      train_step_print = 100, val_step_print = 100, step_save = 100,
      sequence_size = 2, trainer_en_voc = toy_voc,
      forward = (\<lambda>p src tar r. concat src),
      token_loss = (\<lambda>out k t. if take 1 (drop k out) = [t] then Fin 0 else Fin 2),
      argmax = (\<lambda>out. out),
      exp_finite = toy_exp,
      optimizer_step = (\<lambda>p out tar. p + 1),
      n_gram_precision = (\<lambda>a b. if a = b then Fin 1 else Fin 0),
      train_loader_len = n_batches,
      train_loader = (\<lambda>ep i. toy_batch i),
      val_loader = (\<lambda>s. [toy_batch 0, toy_batch 1])\<rparr>"

definition interrupt_first :: "int \<Rightarrow> nat \<Rightarrow> phase option" where
  "interrupt_first ep i = (if ep = 0 \<and> i = 0 then Some Forward else None)"

definition no_interrupt :: "int \<Rightarrow> nat \<Rightarrow> phase option" where
  "no_interrupt ep i = None"

section \<open>Properties of the schedule\<close>

lemma linspace_length: "0 \<le> n \<Longrightarrow> linspace a b n = Inr ys \<Longrightarrow> length ys = nat n"
  by (auto simp: linspace_def Let_def split: if_splits)

lemma int_quot_nonneg: "0 \<le> n \<Longrightarrow> 0 < k \<Longrightarrow> int_quot n k = n div k"
  by (cases "n = 0") (simp_all add: int_quot_def)

lemma teacher_forcing_schedule:
  "cal_teacher_forcing_ratio ''Teacher_Forcing'' n = Inr (replicate (nat n) 1)"
  by (simp add: cal_teacher_forcing_ratio_def)

lemma mixed_sampling_halves:
  assumes "0 \<le> n"
  shows "\<exists>a. linspace 0 1 (n div 2) = Inr a \<and> length a = nat (n div 2) \<and>
             cal_teacher_forcing_ratio ''Scheduled_Sampling'' (n div 2) = Inr (rev a) \<and>
             cal_teacher_forcing_ratio ''Mixed_Sampling'' n
               = Inr (replicate (nat (n div 2)) 1 @ rev a)"
proof -
  from assms have h: "0 \<le> n div 2" by simp
  then obtain a where a: "linspace 0 1 (n div 2) = Inr a"
    by (auto simp: linspace_def Let_def)
  from h a have "length a = nat (n div 2)" by (rule linspace_length)
  with a assms show ?thesis
    by (simp add: cal_teacher_forcing_ratio_def int_quot_nonneg)
qed

lemma mixed_sampling_length:
  assumes "0 \<le> n" and "cal_teacher_forcing_ratio ''Mixed_Sampling'' n = Inr xs"
  shows "length xs = 2 * nat (n div 2)"
  using mixed_sampling_halves [OF assms(1)] assms(2) by auto

text \<open>
  Claim C5. The spec: for every \<open>n \<ge> 0\<close> the mixed schedule is the teacher-forcing
  schedule of \<open>n div 2\<close> entries followed by the scheduled-sampling schedule of the
  remaining \<open>n - n div 2\<close> entries, \<open>n\<close> entries in all. The code sizes both halves by
  \<^verbatim>\<open>int(total_step/2)\<close>: at \<open>n = 3\<close> it returns the two entries \<open>[1, 0]\<close>, while the two
  schedules the spec concatenates are \<open>[1]\<close> and \<open>[1, 0]\<close>, three entries.
\<close>

theorem mixed_sampling_odd_total:
  "cal_teacher_forcing_ratio ''Mixed_Sampling'' 3 = Inr [1, 0] \<and>
   cal_teacher_forcing_ratio ''Teacher_Forcing'' (3 div 2) = Inr [1] \<and>
   cal_teacher_forcing_ratio ''Scheduled_Sampling'' (3 - 3 div 2) = Inr [1, 0]"
  by (simp add: cal_teacher_forcing_ratio_def linspace_def int_quot_def Let_def upt_rec)

text \<open>
  Claim C6, as the spec states it, fails in its second half: the scheduled-sampling
  schedule of one step is not \<open>[1]\<close>.
\<close>

theorem scheduled_sampling_single_not_one:
  "cal_teacher_forcing_ratio ''Scheduled_Sampling'' 1 \<noteq> Inr [1]"
  by (simp add: cal_teacher_forcing_ratio_def linspace_def Let_def)

text \<open>
  Claim C6, amended. A total step count of 0 gives the empty schedule for each of the
  three supported strategies, and the scheduled-sampling schedule of one step is the
  single ratio 0: \<^verbatim>\<open>np.linspace(0.0, 1.0, num=1)\<close> is its start point \<open>[0.0]\<close>, and
  reversing one entry changes nothing.
\<close>

theorem schedule_zero_and_single:
  "cal_teacher_forcing_ratio ''Teacher_Forcing'' 0 = Inr [] \<and>
   cal_teacher_forcing_ratio ''Scheduled_Sampling'' 0 = Inr [] \<and>
   cal_teacher_forcing_ratio ''Mixed_Sampling'' 0 = Inr [] \<and>
   cal_teacher_forcing_ratio ''Scheduled_Sampling'' 1 = Inr [0]"
  by (simp add: cal_teacher_forcing_ratio_def linspace_def int_quot_def Let_def)

section \<open>Properties of the translation inputs\<close>

lemma padding_length: "0 \<le> seq_len self \<Longrightarrow> length (padding self xs p) = nat (seq_len self)"
  by (auto simp: padding_def py_prefix_def)

text \<open>
  Claim C8. For a checkpoint whose sequence length is a length (not negative): an
  encoding longer than \<open>seq_len\<close> is cut to its first \<open>seq_len\<close> ids, a shorter one is
  filled with the Korean pad id, in every case the row has exactly \<open>seq_len\<close> ids, and
  that row is what \<open>transform\<close> invokes the model on. \<open>src_input\<close> is a total function
  without an error branch: the source has no raise on this path.
\<close>

theorem src_input_truncates_and_pads:
  assumes "0 \<le> seq_len self"
  shows "(seq_len self < int (length (EncodeAsIds (ko_voc self) sentence)) \<longrightarrow>
            src_input self sentence
              = [take (nat (seq_len self)) (EncodeAsIds (ko_voc self) sentence)]) \<and>
         (int (length (EncodeAsIds (ko_voc self) sentence)) < seq_len self \<longrightarrow>
            src_input self sentence
              = [EncodeAsIds (ko_voc self) sentence
                 @ replicate (nat (seq_len self) - length (EncodeAsIds (ko_voc self) sentence))
                     (PieceToId (ko_voc self) ''<pad>'')]) \<and>
         map length (src_input self sentence) = [nat (seq_len self)] \<and>
         model_calls (transform self sentence)
           = [(src_input self sentence, tar_input self, 0)]"
proof -
  let ?enc = "EncodeAsIds (ko_voc self) sentence"
  have long: "seq_len self < int (length ?enc) \<Longrightarrow>
      src_input self sentence = [take (nat (seq_len self)) ?enc]"
    using assms by (simp add: src_input_def padding_def py_prefix_def Let_def)
  have short: "int (length ?enc) < seq_len self \<Longrightarrow>
      src_input self sentence
        = [?enc @ replicate (nat (seq_len self) - length ?enc) (PieceToId (ko_voc self) ''<pad>'')]"
    by (simp add: src_input_def padding_def nat_diff_distrib' Let_def)
  have len: "map length (src_input self sentence) = [nat (seq_len self)]"
    using assms by (simp add: src_input_def padding_length Let_def)
  have call: "model_calls (transform self sentence)
        = [(src_input self sentence, tar_input self, 0)]"
    by (simp add: transform_def Let_def)
  from long short len call show ?thesis by blast
qed

lemmas toy_defs = toy_translation_def Translation_def toy_voc_def

theorem src_input_truncates_and_pads_witness:
  "0 \<le> seq_len (toy_translation 3) \<and>
   seq_len (toy_translation 3)
     < int (length (EncodeAsIds (ko_voc (toy_translation 3)) ''abcde'')) \<and>
   src_input (toy_translation 3) ''abcde'' = [[97, 98, 99]] \<and>
   int (length (EncodeAsIds (ko_voc (toy_translation 3)) ''a'')) < seq_len (toy_translation 3) \<and>
   src_input (toy_translation 3) ''a'' = [[97, 0, 0]]"
proof -
  let ?t = "toy_translation 3"
  have h: "0 \<le> seq_len ?t" by (simp add: toy_defs)
  have long: "seq_len ?t < int (length (EncodeAsIds (ko_voc ?t) ''abcde''))"
    by (simp add: toy_defs)
  have short: "int (length (EncodeAsIds (ko_voc ?t) ''a'')) < seq_len ?t"
    by (simp add: toy_defs)
  from src_input_truncates_and_pads [OF h, of "''abcde''"] long
  have "src_input ?t ''abcde''
        = [take (nat (seq_len ?t)) (EncodeAsIds (ko_voc ?t) ''abcde'')]"
    by blast
  then have a: "src_input ?t ''abcde'' = [[97, 98, 99]]"
    by (simp add: toy_defs)
  from src_input_truncates_and_pads [OF h, of "''a''"] short
  have "src_input ?t ''a''
        = [EncodeAsIds (ko_voc ?t) ''a''
           @ replicate (nat (seq_len ?t) - length (EncodeAsIds (ko_voc ?t) ''a''))
               (PieceToId (ko_voc ?t) ''<pad>'')]"
    by blast
  then have b: "src_input ?t ''a'' = [[97, 0, 0]]"
    by (simp add: toy_defs numeral_eq_Suc)
  from h long short a b show ?thesis by blast
qed

text \<open>
  Claim C9. For a sequence length that is not negative, the decoder seed is one row of
  exactly \<open>seq_len\<close> ids; when there is room for a first id (\<open>seq_len \<ge> 1\<close>) that id is
  the English vocabulary's \<^verbatim>\<open><s>\<close> and the \<open>seq_len - 1\<close> ids after it are the pad id
  of the Korean vocabulary, not of the English one.
\<close>

theorem tar_input_seed:
  assumes "0 \<le> seq_len self"
  shows "map length (tar_input self) = [nat (seq_len self)] \<and>
         (1 \<le> seq_len self \<longrightarrow>
            tar_input self
              = [PieceToId (en_voc self) ''<s>''
                 # replicate (nat (seq_len self) - 1) (PieceToId (ko_voc self) ''<pad>'')])"
proof -
  have len: "map length (tar_input self) = [nat (seq_len self)]"
    using assms by (simp add: tar_input_def padding_length Let_def)
  have seed: "tar_input self
        = [PieceToId (en_voc self) ''<s>''
           # replicate (nat (seq_len self) - 1) (PieceToId (ko_voc self) ''<pad>'')]"
    if "1 \<le> seq_len self"
  proof (cases "seq_len self = 1")
    case True
    then show ?thesis by (simp add: tar_input_def padding_def py_prefix_def Let_def)
  next
    case False
    with that have "1 < seq_len self" by simp
    then show ?thesis
      by (simp add: tar_input_def padding_def Let_def nat_diff_distrib')
  qed
  from len seed show ?thesis by blast
qed

theorem tar_input_seed_witness:
  "0 \<le> seq_len (toy_translation 4) \<and> 1 \<le> seq_len (toy_translation 4) \<and>
   tar_input (toy_translation 4) = [[1, 0, 0, 0]]"
proof -
  let ?t = "toy_translation 4"
  have h: "0 \<le> seq_len ?t" and h1: "1 \<le> seq_len ?t" by (simp_all add: toy_defs)
  from tar_input_seed [OF h] h1
  have "tar_input ?t
        = [PieceToId (en_voc ?t) ''<s>''
           # replicate (nat (seq_len ?t) - 1) (PieceToId (ko_voc ?t) ''<pad>'')]"
    by blast
  then have "tar_input ?t = [[1, 0, 0, 0]]"
    by (simp add: toy_defs numeral_eq_Suc)
  with h h1 show ?thesis by blast
qed

section \<open>Properties of batch translation\<close>

lemma py_range_rows:
  assumes "0 < L"
  shows "py_range 0 (int (n * nat L)) L = Inr (map (\<lambda>k. int k * L) [0..<n])"
proof -
  have "(int (n * nat L) + L - 1) div L = int n"
  proof -
    have "int (n * nat L) + L - 1 = (L - 1) + int n * L" using assms by simp
    then have "(int (n * nat L) + L - 1) div L = (L - 1) div L + int n"
      using assms by (simp only: div_mult_self2) simp
    also have "(L - 1) div L = 0" using assms by (simp add: div_pos_pos_trivial)
    finally show ?thesis by simp
  qed
  with assms show ?thesis by (simp add: py_range_def)
qed

lemma py_slice_row:
  assumes "0 < L" and "length xs = n * nat L" and "k < n"
  shows "py_slice xs (int k * L) (int k * L + L - 1) = take (nat L - 1) (drop (k * nat L) xs)"
proof -
  from assms(3) have "Suc k \<le> n" by simp
  then have "Suc k * nat L \<le> n * nat L" by (rule mult_le_mono1)
  then have le: "k * nat L + nat L \<le> length xs" using assms(2) by simp
  have nn: "0 \<le> int k * L" using assms(1) by simp
  have "nat (int k * L) = k * nat L" by (simp add: nat_mult_distrib)
  with nn le have lo: "py_bound (length xs) (int k * L) = k * nat L"
    by (simp add: py_bound_def)
  have nn': "0 \<le> int k * L + L - 1" using assms(1) nn by linarith
  define m where "m = nat L"
  have L: "L = int m" and mpos: "0 < m" using assms(1) by (simp_all add: m_def)
  have "int k * L + L - 1 = int (k * m + m - 1)" using mpos by (simp add: L of_nat_diff)
  then have "nat (int k * L + L - 1) = k * m + m - 1" by (simp only: nat_int)
  then have "nat (int k * L + L - 1) = k * nat L + nat L - 1" by (simp add: m_def)
  with nn' le have hi: "py_bound (length xs) (int k * L + L - 1) = k * nat L + nat L - 1"
    by (simp add: py_bound_def)
  from lo hi show ?thesis by (simp add: py_slice_def Let_def)
qed

lemma decode_rows_slices:
  assumes "0 < seq_len self" and "length indices = n * nat (seq_len self)"
  shows "decode_rows self indices
           = Inr (map (\<lambda>k. tensor2sentence self
                          (take (nat (seq_len self) - 1) (drop (k * nat (seq_len self)) indices)))
                    [0..<n]) \<and>
         (\<forall>k<n. length (take (nat (seq_len self) - 1) (drop (k * nat (seq_len self)) indices))
                  = nat (seq_len self) - 1 \<and>
                (\<forall>j<nat (seq_len self) - 1.
                   take (nat (seq_len self) - 1) (drop (k * nat (seq_len self)) indices) ! j
                     = indices ! (k * nat (seq_len self) + j)))"
proof -
  let ?L = "seq_len self"
  have rows: "decode_rows self indices
      = Inr (map (\<lambda>k. tensor2sentence self (py_slice indices (int k * ?L) (int k * ?L + ?L - 1)))
               [0..<n])"
    using py_range_rows [OF assms(1), of n] assms(2)
    by (simp add: decode_rows_def Let_def comp_def)
  have "map (\<lambda>k. tensor2sentence self (py_slice indices (int k * ?L) (int k * ?L + ?L - 1))) [0..<n]
      = map (\<lambda>k. tensor2sentence self (take (nat ?L - 1) (drop (k * nat ?L) indices))) [0..<n]"
    using py_slice_row [OF assms] by simp
  with rows have first: "decode_rows self indices
      = Inr (map (\<lambda>k. tensor2sentence self (take (nat ?L - 1) (drop (k * nat ?L) indices))) [0..<n])"
    by simp
  have second: "length (take (nat ?L - 1) (drop (k * nat ?L) indices)) = nat ?L - 1 \<and>
                (\<forall>j<nat ?L - 1. take (nat ?L - 1) (drop (k * nat ?L) indices) ! j
                     = indices ! (k * nat ?L + j))" if "k < n" for k
  proof -
    from that have "Suc k \<le> n" by simp
    then have "Suc k * nat ?L \<le> n * nat ?L" by (rule mult_le_mono1)
    then have le: "k * nat ?L + nat ?L \<le> length indices" using assms(2) by simp
    then show ?thesis by auto
  qed
  from first second show ?thesis by blast
qed

lemma src_rows_stack:
  assumes "0 \<le> seq_len self" and "src_list \<noteq> []"
  shows "stack_rows (map (src_input self) src_list)
           = Inr (map (\<lambda>s. padding self (EncodeAsIds (ko_voc self) s) (PieceToId (ko_voc self) ''<pad>''))
                    src_list)"
proof -
  have shape: "map length (src_input self s) = [nat (seq_len self)]" for s
    using assms(1) by (simp add: src_input_def padding_length Let_def)
  have cc: "concat (map (src_input self) xs)
        = map (\<lambda>s. padding self (EncodeAsIds (ko_voc self) s) (PieceToId (ko_voc self) ''<pad>'')) xs" for xs
    by (induction xs) (simp_all add: src_input_def Let_def)
  from assms(2) obtain s rest where sl: "src_list = s # rest" by (cases src_list) auto
  show ?thesis
    by (simp add: stack_rows_def sl shape list_all_iff cc [of "s # rest", simplified])
qed

lemma tar_rows_stack:
  fixes src_list :: "string list"
  assumes "src_list \<noteq> []"
  shows "stack_rows (map (\<lambda>_. tar_input self) src_list)
           = Inr (replicate (length src_list)
                    (padding self [PieceToId (en_voc self) ''<s>''] (PieceToId (ko_voc self) ''<pad>'')))"
proof -
  have cc: "concat (map (\<lambda>_. tar_input self) xs)
        = replicate (length xs) (padding self [PieceToId (en_voc self) ''<s>''] (PieceToId (ko_voc self) ''<pad>''))"
    for xs :: "string list"
    by (induction xs) (simp_all add: tar_input_def Let_def)
  from assms obtain s rest where sl: "src_list = s # rest" by (cases src_list) auto
  show ?thesis
    by (simp add: stack_rows_def sl list_all_iff cc [of "s # rest", simplified])
qed

lemma decode_rows_ok: "0 < seq_len self \<Longrightarrow> \<exists>result. decode_rows self indices = Inr result"
  by (simp add: decode_rows_def py_range_def)

text \<open>
  Claim C3. The spec: a source file of more sentences than the batch bound of 100 makes
  batch translation fail with the batch-too-large error before the model is invoked. The
  code: \<^verbatim>\<open>get_test_loader\<close> has already cut the list to its first 100 lines, so the
  guard \<^verbatim>\<open>len(src_list) > self.batch_size\<close> never fires; for every positive sequence
  length the call returns normally, after one invocation of the model on 100 source rows.
\<close>

theorem batch_transform_over_bound:
  assumes "fs x = Some src_lines" and "fs y = Some tar_lines"
    and "100 < length src_lines" and "0 < n"
  shows "\<exists>trace. batch_transform fs (Translation n ko en net pick (Some x) (Some y)) = Inr trace \<and>
           map (\<lambda>c. length (fst c)) (model_calls trace) = [100]"
proof -
  let ?self = "Translation n ko en net pick (Some x) (Some y)"
  define src where "src = take 100 src_lines"
  define tar where "tar = take 100 tar_lines"
  have sl: "seq_len ?self = n" and bs: "batch_size ?self = 100"
    by (simp_all add: Translation_def)
  have loader: "get_test_loader fs ?self = Inr (src, tar)"
    using assms(1,2)
    by (simp add: get_test_loader_def open_lines_def Translation_def py_prefix_def src_def tar_def)
  have len: "length src = 100" using assms(3) by (simp add: src_def)
  then have ne: "src \<noteq> []" by auto
  from len bs have nb: "\<not> batch_size ?self < int (length src)" by simp
  have nn: "0 \<le> seq_len ?self" using assms(4) sl by simp
  have pos: "0 < seq_len ?self" using assms(4) sl by simp
  note a = src_rows_stack [OF nn ne] and b = tar_rows_stack [OF ne, of ?self]
  define out where "out = max_index ?self (model ?self
        (map (\<lambda>s. padding ?self (EncodeAsIds (ko_voc ?self) s) (PieceToId (ko_voc ?self) ''<pad>'')) src)
        (replicate (length src) (padding ?self [PieceToId (en_voc ?self) ''<s>''] (PieceToId (ko_voc ?self) ''<pad>'')))
        0)"
  obtain result where r: "decode_rows ?self out = Inr result"
    using decode_rows_ok [OF pos] by blast
  have "batch_transform fs ?self
      = Inr \<lparr>model_calls =
               [(map (\<lambda>s. padding ?self (EncodeAsIds (ko_voc ?self) s) (PieceToId (ko_voc ?self) ''<pad>'')) src,
                 replicate (length src) (padding ?self [PieceToId (en_voc ?self) ''<s>''] (PieceToId (ko_voc ?self) ''<pad>'')),
                 0)],
             printed = concat (map print_triple (zip src (zip tar result)))\<rparr>"
    unfolding batch_transform_def loader
    by (simp add: nb a b r [unfolded out_def] Let_def)
  then show ?thesis by (simp add: len)
qed

theorem batch_transform_over_bound_witness:
  "toy_files 101 ''x.txt'' = Some (replicate 101 (''a'' @ newline)) \<and>
   toy_files 101 ''y.txt'' = Some (replicate 101 (''b'' @ newline)) \<and>
   100 < length (replicate 101 (''a'' @ newline)) \<and> (0::int) < 3 \<and>
   (\<exists>trace. batch_transform (toy_files 101) (toy_translation 3) = Inr trace \<and>
      map (\<lambda>c. length (fst c)) (model_calls trace) = [100])"
proof -
  have x: "toy_files 101 ''x.txt'' = Some (replicate 101 (''a'' @ newline))"
    and y: "toy_files 101 ''y.txt'' = Some (replicate 101 (''b'' @ newline))"
    by (simp_all add: toy_files_def)
  have l: "100 < length (replicate 101 (''a'' @ newline))" by simp
  have n: "(0::int) < 3" by simp
  from batch_transform_over_bound [OF x y l n]
  have "\<exists>trace. batch_transform (toy_files 101) (toy_translation 3) = Inr trace \<and>
      map (\<lambda>c. length (fst c)) (model_calls trace) = [100]"
    by (simp add: toy_translation_def)
  with x y l n show ?thesis by blast
qed

lemma src_rows_stack_concat:
  assumes "0 \<le> seq_len self" and "src_list \<noteq> []"
  shows "stack_rows (map (src_input self) src_list) = Inr (concat (map (src_input self) src_list))"
proof -
  have shape: "map length (src_input self s) = [nat (seq_len self)]" for s
    using assms(1) by (simp add: src_input_def padding_length Let_def)
  from assms(2) obtain s rest where sl: "src_list = s # rest" by (cases src_list) auto
  show ?thesis by (simp add: stack_rows_def sl shape list_all_iff)
qed

lemma tar_rows_stack_concat:
  fixes src_list :: "string list"
  assumes "src_list \<noteq> []"
  shows "stack_rows (map (\<lambda>_. tar_input self) src_list)
           = Inr (concat (map (\<lambda>_. tar_input self) src_list))"
proof -
  from assms obtain s rest where sl: "src_list = s # rest" by (cases src_list) auto
  show ?thesis by (simp add: stack_rows_def sl list_all_iff)
qed

lemma loader_within_bound:
  assumes "get_test_loader fs self = Inr (src_list, tar_list)" and "0 \<le> batch_size self"
  shows "int (length src_list) \<le> batch_size self"
  using assms
  by (auto simp: get_test_loader_def py_prefix_def split: sum.splits)

text \<open>
  Claim C10. In \<open>batch_transform\<close>, on a file of \<open>n\<close> sentences for which the model
  returns \<open>n\<close> rows of \<open>seq_len\<close> predicted ids (\<open>seq_len \<ge> 1\<close>), the prediction printed
  for sentence \<open>k\<close> is decoded from the ids at the positions
  \<open>k * seq_len, ..., k * seq_len + seq_len - 2\<close> of the flattened argmax of the model's
  output: exactly \<open>seq_len - 1\<close> ids, the last predicted position of the row left out.
\<close>

theorem batch_transform_drops_last:
  assumes "get_test_loader fs self = Inr (src_list, tar_list)"
    and "src_list \<noteq> []" and "0 \<le> batch_size self" and "0 < seq_len self"
    and "indices = max_index self
           (model self (concat (map (src_input self) src_list))
              (concat (map (\<lambda>_. tar_input self) src_list)) 0)"
    and "length indices = length src_list * nat (seq_len self)"
  shows "batch_transform fs self
           = Inr \<lparr>model_calls =
                   [(concat (map (src_input self) src_list),
                     concat (map (\<lambda>_. tar_input self) src_list), 0)],
                 printed = concat (map print_triple (zip src_list (zip tar_list
                   (map (\<lambda>k. tensor2sentence self
                            (take (nat (seq_len self) - 1)
                               (drop (k * nat (seq_len self)) indices)))
                      [0..<length src_list]))))\<rparr> \<and>
         decode_rows self indices
           = Inr (map (\<lambda>k. tensor2sentence self
                          (take (nat (seq_len self) - 1) (drop (k * nat (seq_len self)) indices)))
                    [0..<length src_list]) \<and>
         (\<forall>k<length src_list.
            length (take (nat (seq_len self) - 1) (drop (k * nat (seq_len self)) indices))
              = nat (seq_len self) - 1 \<and>
            (\<forall>j<nat (seq_len self) - 1.
               take (nat (seq_len self) - 1) (drop (k * nat (seq_len self)) indices) ! j
                 = indices ! (k * nat (seq_len self) + j)))"
proof -
  let ?L = "nat (seq_len self)"
  let ?n = "length src_list"
  let ?preds = "map (\<lambda>k. tensor2sentence self (take (?L - 1) (drop (k * ?L) indices))) [0..<?n]"
  have nn: "0 \<le> seq_len self" using assms(4) by simp
  from loader_within_bound [OF assms(1,3)]
  have nb: "\<not> batch_size self < int (length src_list)" by simp
  note a = src_rows_stack_concat [OF nn assms(2)]
    and b = tar_rows_stack_concat [OF assms(2), of self]
  from decode_rows_slices [OF assms(4,6)]
  have rows: "decode_rows self indices = Inr ?preds"
    and slices: "\<forall>k<?n. length (take (?L - 1) (drop (k * ?L) indices)) = ?L - 1 \<and>
                  (\<forall>j<?L - 1. take (?L - 1) (drop (k * ?L) indices) ! j = indices ! (k * ?L + j))"
    by blast+
  have "batch_transform fs self
      = Inr \<lparr>model_calls =
               [(concat (map (src_input self) src_list),
                 concat (map (\<lambda>_. tar_input self) src_list), 0)],
             printed = concat (map print_triple (zip src_list (zip tar_list ?preds)))\<rparr>"
    unfolding batch_transform_def assms(1)
    by (simp add: nb a b rows [unfolded assms(5)] Let_def assms(5))
  with rows slices show ?thesis by blast
qed

theorem batch_transform_drops_last_witness:
  "get_test_loader toy_pair_files (toy_translation 3)
     = Inr ([''hi!'' @ newline, ''ok?'' @ newline], [''HI'' @ newline, ''OK'' @ newline]) \<and>
   [''hi!'' @ newline, ''ok?'' @ newline] \<noteq> [] \<and>
   0 \<le> batch_size (toy_translation 3) \<and> 0 < seq_len (toy_translation 3) \<and>
   [104, 105, 33, 111, 107, 63]
     = max_index (toy_translation 3)
         (model (toy_translation 3)
            (concat (map (src_input (toy_translation 3)) [''hi!'' @ newline, ''ok?'' @ newline]))
            (concat (map (\<lambda>_. tar_input (toy_translation 3)) [''hi!'' @ newline, ''ok?'' @ newline]))
            0) \<and>
   length [104, 105, 33, 111, 107, 63 :: nat]
     = length [''hi!'' @ newline, ''ok?'' @ newline] * nat (seq_len (toy_translation 3)) \<and>
   batch_transform toy_pair_files (toy_translation 3)
     = Inr \<lparr>model_calls = [([[104, 105, 33], [111, 107, 63]], [[1, 0, 0], [1, 0, 0]], 0)],
            printed =
              [''Korean: hi!'' @ newline, ''English: HI'' @ newline, ''Predict: hi'' @ newline,
               ''-------------------------'' @ newline,
               ''Korean: ok?'' @ newline, ''English: OK'' @ newline, ''Predict: ok'' @ newline,
               ''-------------------------'' @ newline]\<rparr>"
proof -
  let ?t = "toy_translation 3"
  let ?src = "[''hi!'' @ newline, ''ok?'' @ newline]"
  let ?tar = "[''HI'' @ newline, ''OK'' @ newline]"
  let ?ix = "[104, 105, 33, 111, 107, 63 :: nat]"
  have h1: "get_test_loader toy_pair_files ?t = Inr (?src, ?tar)"
    by (simp add: get_test_loader_def open_lines_def toy_pair_files_def toy_defs py_prefix_def)
  have h2: "?src \<noteq> []" by simp
  have h3: "0 \<le> batch_size ?t" and h4: "0 < seq_len ?t" by (simp_all add: toy_defs)
  have h5: "?ix = max_index ?t (model ?t (concat (map (src_input ?t) ?src))
                      (concat (map (\<lambda>_. tar_input ?t) ?src)) 0)"
    by code_simp
  have h6: "length ?ix = length ?src * nat (seq_len ?t)" by (simp add: toy_defs)
  have m1: "concat (map (src_input ?t) ?src) = [[104, 105, 33], [111, 107, 63]]"
    and m2: "concat (map (\<lambda>_. tar_input ?t) ?src) = [[1, 0, 0], [1, 0, 0]]"
    by code_simp+
  have p: "concat (map print_triple (zip ?src (zip ?tar
               (map (\<lambda>k. tensor2sentence ?t
                        (take (nat (seq_len ?t) - 1) (drop (k * nat (seq_len ?t)) ?ix)))
                  [0..<length ?src]))))
         = [''Korean: hi!'' @ newline, ''English: HI'' @ newline, ''Predict: hi'' @ newline,
            ''-------------------------'' @ newline,
            ''Korean: ok?'' @ newline, ''English: OK'' @ newline, ''Predict: ok'' @ newline,
            ''-------------------------'' @ newline]"
    by code_simp
  from batch_transform_drops_last [OF h1 h2 h3 h4 h5 h6]
  have "batch_transform toy_pair_files ?t
      = Inr \<lparr>model_calls =
               [(concat (map (src_input ?t) ?src), concat (map (\<lambda>_. tar_input ?t) ?src), 0)],
             printed = concat (map print_triple (zip ?src (zip ?tar
               (map (\<lambda>k. tensor2sentence ?t
                        (take (nat (seq_len ?t) - 1) (drop (k * nat (seq_len ?t)) ?ix)))
                  [0..<length ?src]))))\<rparr>"
    by blast
  then have "batch_transform toy_pair_files ?t
      = Inr \<lparr>model_calls = [([[104, 105, 33], [111, 107, 63]], [[1, 0, 0], [1, 0, 0]], 0)],
            printed =
              [''Korean: hi!'' @ newline, ''English: HI'' @ newline, ''Predict: hi'' @ newline,
               ''-------------------------'' @ newline,
               ''Korean: ok?'' @ newline, ''English: OK'' @ newline, ''Predict: ok'' @ newline,
               ''-------------------------'' @ newline]\<rparr>"
    by (simp only: m1 m2 p)
  with h1 h2 h3 h4 h5 h6 show ?thesis by blast
qed

section \<open>Properties of the metrics\<close>

lemma accuracy_all_pad:
  assumes "set tar \<subseteq> {PieceToId (trainer_en_voc self) ''<pad>''}"
  shows "accuracy self indices tar = NaN"
proof -
  let ?pad = "PieceToId (trainer_en_voc self) ''<pad>''"
  from assms have inv: "map (\<lambda>t. t = ?pad) tar = replicate (length tar) True"
    by (induction tar) auto
  have none_valid: "filter (\<lambda>i. i = False) (replicate (length tar) True) = []"
    by simp
  have masked: "filter (\<lambda>e. e) (map (\<lambda>(e, inv). if inv then False else e)
                   (zip eqs (replicate n True))) = []" for eqs :: "bool list" and n
    by (auto simp: filter_empty_conv dest: set_zip_rightD)
  show ?thesis
    by (simp add: accuracy_def Let_def inv masked torch_div_def)
qed

lemma criterion_all_pad:
  assumes "set tar \<subseteq> {PieceToId (trainer_en_voc self) ''<pad>''}"
  shows "criterion self out tar = NaN"
proof -
  have "filter (\<lambda>(k, t). t \<noteq> PieceToId (trainer_en_voc self) ''<pad>'')
          (zip [0..<length tar] tar) = []"
    using assms by (auto simp: filter_empty_conv dest: set_zip_rightD)
  then show ?thesis
    by (simp add: criterion_def Let_def fl_sum_def torch_mean_div_def)
qed

text \<open>
  Claim C2, as the spec states it, fails: on a batch whose two targets are both the pad id
  the accuracy that \<open>loss_accuracy\<close> returns is NaN, not 0 (and so are the loss and the
  perplexity).
\<close>

theorem all_pad_accuracy_not_zero:
  "loss_accuracy (toy_trainer ''Teacher_Forcing'' 1 2) [3, 4] [[0, 0]] = Inr (NaN, NaN, NaN) \<and>
   accuracy (toy_trainer ''Teacher_Forcing'' 1 2) [3, 4] [0, 0] \<noteq> Fin 0"
  by code_simp

text \<open>
  Claim C2, amended. For every batch in which every target position is the pad id, the
  count of positions that are not padding is 0 and so is the count of matches; the code
  divides the one by the other without a guard, and \<^verbatim>\<open>torch.div\<close> returns NaN instead
  of raising: the accuracy is NaN, not 0. The loss, a mean over no position, is NaN too,
  and so is the perplexity \<^verbatim>\<open>math.exp(nan)\<close>. No exception is raised: \<open>loss_accuracy\<close>
  returns the three NaN and the run goes on.
\<close>

theorem all_pad_accuracy_is_nan:
  assumes "set (concat tar_rows) \<subseteq> {PieceToId (trainer_en_voc self) ''<pad>''}"
    and "length (argmax self out) = length (concat tar_rows)"
  shows "accuracy self (argmax self out) (concat tar_rows) = NaN \<and>
         loss_accuracy self out tar_rows = Inr (NaN, NaN, NaN)"
  using accuracy_all_pad [OF assms(1)] criterion_all_pad [OF assms(1)] assms(2)
  by (simp add: loss_accuracy_def Let_def math_exp_def)

theorem all_pad_accuracy_is_nan_witness:
  "set (concat [[0, 0]]) \<subseteq> {PieceToId (trainer_en_voc (toy_trainer ''Teacher_Forcing'' 1 2)) ''<pad>''} \<and>
   length (argmax (toy_trainer ''Teacher_Forcing'' 1 2) [3, 4]) = length (concat [[0, 0 :: nat]]) \<and>
   loss_accuracy (toy_trainer ''Teacher_Forcing'' 1 2) [3, 4] [[0, 0]] = Inr (NaN, NaN, NaN)"
proof -
  let ?T = "toy_trainer ''Teacher_Forcing'' 1 2"
  have h1: "set (concat [[0, 0]]) \<subseteq> {PieceToId (trainer_en_voc ?T) ''<pad>''}"
    by (simp add: toy_trainer_def toy_voc_def)
  have h2: "length (argmax ?T [3, 4]) = length (concat [[0, 0 :: nat]])"
    by (simp add: toy_trainer_def)
  from all_pad_accuracy_is_nan [OF h1 h2]
  have "loss_accuracy ?T [3, 4] [[0, 0]] = Inr (NaN, NaN, NaN)"
    by blast
  with h1 h2 show ?thesis by blast
qed

lemma fl_add_zero_right: "fl_add x (Fin 0) = x"
  by (cases x) simp_all

lemma fl_add_assoc: "fl_add (fl_add x y) z = fl_add x (fl_add y z)"
  by (cases x; cases y; cases z) simp_all

lemma val_loop_totals:
  assumes "map (score self p r) loader = map Inr ms"
  shows "val_loop self p r loader acc =
           Inr \<lparr>total_loss = fl_add (total_loss acc) (fl_sum (map fst ms)),
                total_accuracy = fl_add (total_accuracy acc) (fl_sum (map (fst \<circ> snd) ms)),
                total_ppl = fl_add (total_ppl acc) (fl_sum (map (snd \<circ> snd) ms)),
                count = count acc + length ms,
                last_batch = (if loader = [] then last_batch acc
                              else (case last loader of (src, tar_in, tar_out) \<Rightarrow>
                                      Some (forward self p src tar_in r, src, tar_out)))\<rparr>"
  using assms
proof (induction loader arbitrary: acc ms)
  case Nil
  then show ?case by (simp add: fl_sum_def fl_add_zero_right)
next
  case (Cons data rest)
  from Cons.prems obtain m ms' where ms: "ms = m # ms'"
    and m: "score self p r data = Inr m"
    and rest: "map (score self p r) rest = map Inr ms'"
    by (cases ms) auto
  obtain src tar_in tar_out where data: "data = (src, tar_in, tar_out)" by (cases data)
  obtain loss acc1 ppl where mm: "m = (loss, acc1, ppl)" by (cases m)
  from m data mm have la: "loss_accuracy self (forward self p src tar_in r) tar_out = Inr (loss, acc1, ppl)"
    by (simp add: score_def)
  show ?case
    by (simp add: data la Cons.IH [OF rest] ms mm fl_sum_def fl_add_assoc Let_def
             split: prod.splits)
qed

text \<open>
  Claim C7. For a validation pass over a set that is not empty, on which every batch is
  scored and whose last batch has a row, the loss, accuracy and perplexity returned are each
  the sum of the per-batch values over the number of batches: batch sizes play no part.
  On finite values that mean is the rational \<open>sum_list qs / length qs\<close>
  (\<open>fl_mean_finite\<close>).
\<close>

theorem val_unweighted_mean:
  assumes "map (score self p r) loader = map Inr ms"
    and "loader \<noteq> []"
    and "fst (last loader) \<noteq> []" and "snd (snd (last loader)) \<noteq> []"
  shows "\<exists>avg_loss avg_accuracy avg_ppl bleu.
           val self p r loader = Inr (avg_loss, avg_accuracy, avg_ppl, bleu) \<and>
           fl_mean (map fst ms) = Inr avg_loss \<and>
           fl_mean (map (fst \<circ> snd) ms) = Inr avg_accuracy \<and>
           fl_mean (map (snd \<circ> snd) ms) = Inr avg_ppl"
proof -
  from assms(1) have "length (map (score self p r) loader) = length (map Inr ms)" by simp
  then have len: "length ms = length loader" by simp
  with assms(2) obtain k where k: "length ms = Suc k" by (cases ms) auto
  obtain src tar_in tar_out where lst: "last loader = (src, tar_in, tar_out)"
    by (cases "last loader")
  with assms(3,4) obtain a srest b trest where src: "src = a # srest" and tar: "tar_out = b # trest"
    by (cases src; cases tar_out) auto
  have add0: "fl_add (Fin 0) x = x" for x by (cases x) simp_all
  have div_ok: "\<exists>y. py_truediv x (Suc k) = Inr y" for x by (cases x) simp_all
  obtain al where al: "py_truediv (fl_sum (map fst ms)) (Suc k) = Inr al" using div_ok by blast
  obtain aa where aa: "py_truediv (fl_sum (map (fst \<circ> snd) ms)) (Suc k) = Inr aa" using div_ok by blast
  obtain ap where ap: "py_truediv (fl_sum (map (snd \<circ> snd) ms)) (Suc k) = Inr ap" using div_ok by blast
  have "val self p r loader
      = Inr (al, aa, ap,
             n_gram_precision self
               (strip (replace_marker (concat (pieces_until_end (trainer_en_voc self)
                  (py_prefix (argmax self (forward self p src tar_in r)) (sequence_size self))))))
               (strip (replace_marker (concat (pieces_until_end (trainer_en_voc self) b)))))"
    using assms(2)
    by (simp add: val_def val_loop_totals [OF assms(1)] add0 lst src tar k al aa ap
          py_index_def tensor2sentence_en_def Let_def)
  with al aa ap k show ?thesis by (simp add: fl_mean_def)
qed

lemma fl_sum_finite: "fl_sum (map Fin qs) = Fin (sum_list qs)"
  by (induction qs) (simp_all add: fl_sum_def)

lemma fl_mean_finite:
  "qs \<noteq> [] \<Longrightarrow> fl_mean (map Fin qs) = Inr (Fin (sum_list qs / of_nat (length qs)))"
  using fl_sum_finite [of qs] by (cases qs) (simp_all add: fl_mean_def)

theorem val_unweighted_mean_witness:
  "map (score (toy_trainer ''Teacher_Forcing'' 1 2) 0 1) [toy_batch 0, toy_batch 1]
     = map Inr [(Fin 1, Fin (1 / 2), Fin (5 / 2)), (Fin 2, Fin 0, Fin 5)] \<and>
   [toy_batch 0, toy_batch 1] \<noteq> [] \<and>
   fst (last [toy_batch 0, toy_batch 1]) \<noteq> [] \<and>
   snd (snd (last [toy_batch 0, toy_batch 1])) \<noteq> [] \<and>
   (\<exists>bleu. val (toy_trainer ''Teacher_Forcing'' 1 2) 0 1 [toy_batch 0, toy_batch 1]
              = Inr (Fin (3 / 2), Fin (1 / 4), Fin (15 / 4), bleu))"
proof -
  let ?T = "toy_trainer ''Teacher_Forcing'' 1 2"
  let ?loader = "[toy_batch 0, toy_batch 1]"
  let ?ms = "[(Fin 1, Fin (1 / 2), Fin (5 / 2)), (Fin 2, Fin 0, Fin 5)]"
  have h1: "map (score ?T 0 1) ?loader = map Inr ?ms" by code_simp
  have h2: "?loader \<noteq> []" by simp
  have h3: "fst (last ?loader) \<noteq> []" and h4: "snd (snd (last ?loader)) \<noteq> []"
    by (simp_all add: toy_batch_def)
  have m1: "fl_mean (map fst ?ms) = Inr (Fin (3 / 2))"
    and m2: "fl_mean (map (fst \<circ> snd) ?ms) = Inr (Fin (1 / 4))"
    and m3: "fl_mean (map (snd \<circ> snd) ?ms) = Inr (Fin (15 / 4))"
    by (simp_all add: fl_mean_def fl_sum_def)
  from val_unweighted_mean [OF h1 h2 h3 h4] m1 m2 m3
  have "\<exists>bleu. val ?T 0 1 ?loader = Inr (Fin (3 / 2), Fin (1 / 4), Fin (15 / 4), bleu)"
    by auto
  with h1 h2 h3 h4 show ?thesis by blast
qed

section \<open>Properties of the training loop\<close>

lemma forward_pass_step:
  "forward_pass self tr i data sig st = Inl (e, st1) \<Longrightarrow> step st1 = step st"
  "forward_pass self tr i data sig st = Inr (st2, out, m) \<Longrightarrow> step st2 = step st"
  by (auto simp: forward_pass_def Let_def split: if_splits prod.splits sum.splits)

lemma training_log_step:
  "training_log self sig l a pp st = Inl (e, st1) \<Longrightarrow> step st1 = step st"
  "training_log self sig l a pp st = Inr st2 \<Longrightarrow> step st2 = step st"
  by (auto simp: training_log_def split: if_splits sum.splits)

lemma validation_log_step:
  "validation_log self vr sig st = Inl (e, st1) \<Longrightarrow> step st1 = step st"
  "validation_log self vr sig st = Inr st2 \<Longrightarrow> step st2 = step st"
  by (auto simp: validation_log_def Let_def split: if_splits sum.splits prod.splits)

lemma periodic_save_step:
  "periodic_save self sig ep st = Inl (e, st1) \<Longrightarrow> step st1 = step st"
  "periodic_save self sig ep st = Inr st2 \<Longrightarrow> step st2 = step st"
  by (auto simp: periodic_save_def model_save_def split: if_splits sum.splits)

lemma optimizer_update_step:
  "optimizer_update self sig out tar st = Inl (e, st1) \<Longrightarrow> step st1 = step st"
  by (auto simp: optimizer_update_def Let_def split: if_splits)

lemma train_body_raises_step:
  assumes "train_body self tr vr ep i sig st = Inl (e, st')"
  shows "step st' = step st"
proof (cases "forward_pass self tr i (train_loader self ep i) sig st")
  case (Inl x)
  with assms show ?thesis by (cases x) (auto simp: train_body_def dest: forward_pass_step)
next
  case (Inr y)
  obtain st1 out l a pp where y: "y = (st1, out, l, a, pp)"
    by (cases y) auto
  from Inr y have s1: "step st1 = step st" by (auto dest: forward_pass_step)
  show ?thesis
  proof (cases "training_log self sig l a pp st1")
    case (Inl x)
    with assms Inr y s1 show ?thesis
      by (cases x) (auto simp: train_body_def dest: training_log_step)
  next
    case tl: (Inr st2)
    then have s2: "step st2 = step st" using s1 by (auto dest: training_log_step)
    show ?thesis
    proof (cases "validation_log self vr sig st2")
      case (Inl x)
      with assms Inr y tl s2 show ?thesis
        by (cases x) (auto simp: train_body_def dest: validation_log_step)
    next
      case vl: (Inr st3)
      then have s3: "step st3 = step st" using s2 by (auto dest: validation_log_step)
      show ?thesis
      proof (cases "periodic_save self sig ep st3")
        case (Inl x)
        with assms Inr y tl vl s3 show ?thesis
          by (cases x) (auto simp: train_body_def dest: periodic_save_step)
      next
        case ps: (Inr st4)
        then have s4: "step st4 = step st" using s3 by (auto dest: periodic_save_step)
        from assms Inr y tl vl ps
        have "optimizer_update self sig out (snd (snd (train_loader self ep i))) st4 = Inl (e, st')"
          by (simp add: train_body_def)
        with s4 show ?thesis by (auto dest: optimizer_update_step)
      qed
    qed
  qed
qed

lemma batches_loop_no_interrupt:
  "batches_loop self tr vr signals ep is st \<noteq> Inl (KeyboardInterrupt, st')"
  by (induction "is" arbitrary: st) (auto split: sum.splits prod.splits)

lemma epochs_loop_no_interrupt:
  "epochs_loop self tr vr signals eps st \<noteq> Inl (KeyboardInterrupt, st')"
  by (induction eps arbitrary: st) (auto simp: batches_loop_no_interrupt split: sum.splits)

lemma schedule_errors:
  "cal_teacher_forcing_ratio m n = Inl e \<Longrightarrow> e = NotImplementedError \<or> e = ValueError"
  by (auto simp: cal_teacher_forcing_ratio_def linspace_def Let_def split: if_splits sum.splits)

lemma train_no_interrupt: "train self signals p0 \<noteq> Inl (KeyboardInterrupt, st')"
  by (auto simp: train_def Let_def epochs_loop_no_interrupt split: sum.splits dest: schedule_errors)

text \<open>
  Claim C1, as the spec states it, fails: with one keyboard interrupt, in the forward pass
  of the first of two batches, \<open>train\<close> returns normally; the handler has saved the
  checkpoint of epoch 0 and step 0, and the second batch has then been trained on (its
  ratio, entry 1 of the schedule, is the only one used, and the step is 1 at the end).
\<close>

theorem interrupt_is_swallowed:
  "train (toy_trainer ''Scheduled_Sampling'' 1 2) interrupt_first 0 =
   Inr \<lparr>step = 1, params = 1,
        checkpoints =
          [\<lparr>epoch = 0, steps = 0, saved_seq_len = 2, model_state_dict = 0\<rparr>,
           \<lparr>epoch = 0, steps = 0, saved_seq_len = 2, model_state_dict = 0\<rparr>],
        ratios_used = [1 / 2],
        scalars =
          [(''train/loss'', Fin 2, 0), (''train/accuracy'', Fin 0, 0),
           (''train/PPL'', Fin 5, 0), (''val/loss'', Fin (3 / 2), 0),
           (''val/accuracy'', Fin (1 / 4), 0),
           (''val/PPL'', Fin (15 / 4), 0), (''val/BLEU'', Fin 0, 0)]\<rparr>"
  by code_simp

text \<open>
  Claim C1, amended. If a keyboard interrupt is raised in the body of a training step, the
  step counter is what it was when the batch began, the handler saves a checkpoint with
  the current epoch and that step, and the handler ends without raising again: the loop
  goes on with the batches that remain, and \<open>train\<close> never ends with the interrupt.
\<close>

theorem interrupt_saves_and_continues:
  assumes "train_body self tr vr ep i (signals ep i) st = Inl (KeyboardInterrupt, st1)"
  shows "step st1 = step st \<and>
         batches_loop self tr vr signals ep (i # rest) st
           = batches_loop self tr vr signals ep rest
               (st1\<lparr>checkpoints := checkpoints st1
                   @ [\<lparr>epoch = ep, steps = step st, saved_seq_len = sequence_size self,
                        model_state_dict = params st1\<rparr>]\<rparr>) \<and>
         (\<forall>p0 st'. train self signals p0 \<noteq> Inl (KeyboardInterrupt, st'))"
proof -
  from assms have s: "step st1 = step st" by (rule train_body_raises_step)
  from assms s have "batches_loop self tr vr signals ep (i # rest) st
           = batches_loop self tr vr signals ep rest
               (st1\<lparr>checkpoints := checkpoints st1
                   @ [\<lparr>epoch = ep, steps = step st, saved_seq_len = sequence_size self,
                        model_state_dict = params st1\<rparr>]\<rparr>)"
    by (simp add: model_save_def)
  moreover have "\<forall>p0 st'. train self signals p0 \<noteq> Inl (KeyboardInterrupt, st')"
    by (simp add: train_no_interrupt)
  ultimately show ?thesis using s by simp
qed

theorem interrupt_saves_and_continues_witness:
  "train_body (toy_trainer ''Scheduled_Sampling'' 1 2) [1, 1 / 2, 0] [1] 0 0 (interrupt_first 0 0)
     \<lparr>step = 0, params = 0, checkpoints = [], ratios_used = [], scalars = []\<rparr>
     = Inl (KeyboardInterrupt,
            \<lparr>step = 0, params = 0, checkpoints = [], ratios_used = [], scalars = []\<rparr>) \<and>
   batches_loop (toy_trainer ''Scheduled_Sampling'' 1 2) [1, 1 / 2, 0] [1] interrupt_first 0 [0, 1]
     \<lparr>step = 0, params = 0, checkpoints = [], ratios_used = [], scalars = []\<rparr>
     = batches_loop (toy_trainer ''Scheduled_Sampling'' 1 2) [1, 1 / 2, 0] [1] interrupt_first 0 [1]
         \<lparr>step = 0, params = 0,
          checkpoints = [\<lparr>epoch = 0, steps = 0, saved_seq_len = 2, model_state_dict = 0\<rparr>],
          ratios_used = [], scalars = []\<rparr>"
proof -
  let ?T = "toy_trainer ''Scheduled_Sampling'' 1 2"
  let ?st = "\<lparr>step = 0, params = 0::nat, checkpoints = [], ratios_used = [], scalars = []\<rparr>"
  have h: "train_body ?T [1, 1 / 2, 0] [1] 0 0 (interrupt_first 0 0) ?st
             = Inl (KeyboardInterrupt, ?st)"
    by (simp add: train_body_def forward_pass_def interrupt_first_def)
  from interrupt_saves_and_continues
         [where signals = interrupt_first and ep = 0 and i = 0 and rest = "[1]", OF h]
  have "batches_loop ?T [1, 1 / 2, 0] [1] interrupt_first 0 [0, 1] ?st
     = batches_loop ?T [1, 1 / 2, 0] [1] interrupt_first 0 [1]
         (?st\<lparr>checkpoints := checkpoints ?st
                   @ [\<lparr>epoch = 0, steps = step ?st, saved_seq_len = sequence_size ?T,
                        model_state_dict = params ?st\<rparr>]\<rparr>)"
    by blast
  then have "batches_loop ?T [1, 1 / 2, 0] [1] interrupt_first 0 [0, 1] ?st
     = batches_loop ?T [1, 1 / 2, 0] [1] interrupt_first 0 [1]
         \<lparr>step = 0, params = 0,
          checkpoints = [\<lparr>epoch = 0, steps = 0, saved_seq_len = 2, model_state_dict = 0\<rparr>],
          ratios_used = [], scalars = []\<rparr>"
    by (simp add: toy_trainer_def)
  with h show ?thesis by blast
qed

lemma forward_pass_ratio:
  assumes "forward_pass self tr i data sig st = Inr (st1, out, m)"
  shows "i < length tr \<and> ratios_used st1 = ratios_used st @ [tr ! i]"
  using assms
  by (auto simp: forward_pass_def py_index_def Let_def split: if_splits prod.splits sum.splits)


text \<open>
  Claim C4. The spec: the ratio of the forward pass at global step \<open>s\<close> is entry \<open>s\<close> of
  the one schedule, across epochs. The code builds one schedule of
  \<open>epochs * (batches + 1)\<close> entries but indexes it with the position \<open>i\<close> of the batch
  inside its epoch (\<open>forward_pass_ratio\<close>): with 2 epochs of 2 batches under scheduled
  sampling the four forward passes use the entries 0, 1, 0, 1 of the six, that is
  1, 4/5, 1, 4/5 and not 1, 4/5, 3/5, 2/5.
\<close>

theorem ratio_index_resets_each_epoch:
  "map_sum fst ratios_used (train (toy_trainer ''Scheduled_Sampling'' 2 2) no_interrupt 0)
     = Inr [1, 4 / 5, 1, 4 / 5] \<and>
   cal_teacher_forcing_ratio ''Scheduled_Sampling'' (2 * (2 + 1))
     = Inr [1, 4 / 5, 3 / 5, 2 / 5, 1 / 5, 0]"
  by code_simp

end
